theory Spec2Isabelle
  imports Complex_Main
begin

section \<open>Double arithmetic as a parameter\<close>

text \<open>
  Every number of the benchmark is a C++ \<^verbatim>\<open>double\<close>. The model is written over an
  arbitrary carrier \<open>'d\<close>: \<open>+\<close> and \<open>*\<close> are the syntactic operations of the classes
  \<open>plus\<close> and \<open>times\<close>, which carry no law at all, and what the program takes from the
  compiler and from \<^verbatim>\<open><cmath>\<close> (decimal literals, the conversion of an \<^verbatim>\<open>int\<close>,
  \<^verbatim>\<open>std::sin\<close>, \<^verbatim>\<open>std::cos\<close>, \<^verbatim>\<open>std::tan\<close>, \<^verbatim>\<open>std::sqrt\<close>) is a record of
  functions handed to every definition. A theorem proved for every such record holds in
  particular for IEEE binary64 with any rounding and any library.
\<close>

record 'd cmath =
  lit :: "real \<Rightarrow> 'd"
  from_int :: "int \<Rightarrow> 'd"
  std_sin :: "'d \<Rightarrow> 'd"
  std_cos :: "'d \<Rightarrow> 'd"
  std_tan :: "'d \<Rightarrow> 'd"
  std_sqrt :: "'d \<Rightarrow> 'd"

text \<open>The exact arithmetic of the reals is one instance.\<close>

definition real_cmath :: "real cmath" where
  "real_cmath = \<lparr>lit = (\<lambda>x. x), from_int = real_of_int, std_sin = sin, std_cos = cos,
     std_tan = tan, std_sqrt = sqrt\<rparr>"

section \<open>namespace constants\<close>

definition VECTOR_SIZE :: nat where
  "VECTOR_SIZE = 10000"

definition INNER_LOOP_COUNT :: nat where
  "INNER_LOOP_COUNT = 10"

definition BENCHMARK_ITERATIONS :: nat where
  "BENCHMARK_ITERATIONS = 10000"

definition ACCELERATION_VALUE :: "'d cmath \<Rightarrow> 'd" where
  "ACCELERATION_VALUE M = lit M 50"

definition MIN_TIME :: "'d cmath \<Rightarrow> 'd" where
  "MIN_TIME M = lit M (1 / 10)"

definition ELECTRIC_FRICTION :: "'d cmath \<Rightarrow> 'd" where
  "ELECTRIC_FRICTION M = lit M (85 / 100)"

definition GAS_FRICTION :: "'d cmath \<Rightarrow> 'd" where
  "GAS_FRICTION M = lit M (95 / 100)"

section \<open>namespace impl: the workload kernel\<close>

text \<open>
  \<^verbatim>\<open>calculations[i]\<close> on a \<^verbatim>\<open>std::vector\<close> is unchecked: an index at or beyond
  \<^verbatim>\<open>size()\<close> is undefined behaviour, which the model reports as \<open>OutOfRange\<close>.
  \<open>BadVariantAccess\<close> is the exception of \<^verbatim>\<open>std::get\<close> on a variant that holds the
  other alternative.
\<close>

datatype error = OutOfRange | BadVariantAccess

text \<open>
  The state of the loop of \<^verbatim>\<open>doAcceleration\<close> is the counter \<open>i\<close> and the two
  reference parameters \<open>work\<close> and \<open>calculations\<close>. The counter is an \<^verbatim>\<open>int\<close> that
  runs from 0 to 10000, so a \<open>nat\<close> holds it; it is converted where the source
  multiplies or adds it to a double.
\<close>

function doAcceleration_loop ::
  "('d::{plus,times}) cmath \<Rightarrow> 'd \<Rightarrow> nat \<Rightarrow> 'd \<times> 'd list \<Rightarrow> error + ('d \<times> 'd list)" where
  "doAcceleration_loop M speed i (work, calculations) =
     (if i < VECTOR_SIZE then
        (if i < length calculations then
           (let calculations' = calculations[i :=
                  std_sin M (speed * from_int M (int i))
                    * std_cos M (from_int M (int i) * lit M (1 / 2))
                    * std_tan M speed];
                work' = work + calculations' ! i * std_sqrt M (speed + from_int M (int i))
            in doAcceleration_loop M speed (Suc i) (work', calculations'))
         else Inl OutOfRange)
      else Inr (work, calculations))"
  by pat_completeness auto
termination
  by (relation "measure (\<lambda>(M, speed, i, s). VECTOR_SIZE - i)") auto

definition doAcceleration ::
  "('d::{plus,times}) cmath \<Rightarrow> 'd \<Rightarrow> 'd \<Rightarrow> 'd list \<Rightarrow> error + ('d \<times> 'd list)" where
  "doAcceleration M speed work calculations =
     doAcceleration_loop M speed 0 (work, calculations)"

section \<open>The generic-dispatch classes\<close>

record 'd ElectricSportsCar =
  speed :: 'd
  work :: 'd
  calculations :: "'d list"
  brand :: string
  model :: string

definition ElectricSportsCar_new :: "'d cmath \<Rightarrow> string \<Rightarrow> string \<Rightarrow> 'd ElectricSportsCar" where
  "ElectricSportsCar_new M b m =
     \<lparr>ElectricSportsCar.speed = lit M 0, work = lit M 0,
      calculations = replicate VECTOR_SIZE (lit M 0), brand = b, model = m\<rparr>"

definition ElectricSportsCar_accelerate ::
  "('d::{plus,times}) cmath \<Rightarrow> 'd \<Rightarrow> 'd ElectricSportsCar \<Rightarrow> error + 'd ElectricSportsCar" where
  "ElectricSportsCar_accelerate M s v =
     (let speed' = ElectricSportsCar.speed v + s in
      case doAcceleration M speed' (ElectricSportsCar.work v) (ElectricSportsCar.calculations v) of
        Inl e \<Rightarrow> Inl e
      | Inr (work', calculations') \<Rightarrow>
          Inr (v\<lparr>ElectricSportsCar.speed := speed', ElectricSportsCar.work := work',
                 ElectricSportsCar.calculations := calculations'\<rparr>))"

definition ElectricSportsCar_brake :: "'d cmath \<Rightarrow> 'd ElectricSportsCar \<Rightarrow> 'd ElectricSportsCar" where
  "ElectricSportsCar_brake M v = v\<lparr>ElectricSportsCar.speed := from_int M 0\<rparr>"

definition ElectricSportsCar_getWork :: "'d ElectricSportsCar \<Rightarrow> 'd" where
  "ElectricSportsCar_getWork v = ElectricSportsCar.work v"

definition ElectricSportsCar_getBrand :: "'d ElectricSportsCar \<Rightarrow> string" where
  "ElectricSportsCar_getBrand v = ElectricSportsCar.brand v"

definition ElectricSportsCar_getModel :: "'d ElectricSportsCar \<Rightarrow> string" where
  "ElectricSportsCar_getModel v = ElectricSportsCar.model v"

record 'd GasSportsCar =
  speed :: 'd
  work :: 'd
  calculations :: "'d list"
  brand :: string
  model :: string

definition GasSportsCar_new :: "'d cmath \<Rightarrow> string \<Rightarrow> string \<Rightarrow> 'd GasSportsCar" where
  "GasSportsCar_new M b m =
     \<lparr>GasSportsCar.speed = lit M 0, work = lit M 0,
      calculations = replicate VECTOR_SIZE (lit M 0), brand = b, model = m\<rparr>"

definition GasSportsCar_accelerate ::
  "('d::{plus,times}) cmath \<Rightarrow> 'd \<Rightarrow> 'd GasSportsCar \<Rightarrow> error + 'd GasSportsCar" where
  "GasSportsCar_accelerate M s v =
     (let speed' = GasSportsCar.speed v + s in
      case doAcceleration M speed' (GasSportsCar.work v) (GasSportsCar.calculations v) of
        Inl e \<Rightarrow> Inl e
      | Inr (work', calculations') \<Rightarrow>
          Inr (v\<lparr>GasSportsCar.speed := speed', GasSportsCar.work := work',
                 GasSportsCar.calculations := calculations'\<rparr>))"

definition GasSportsCar_brake :: "'d cmath \<Rightarrow> 'd GasSportsCar \<Rightarrow> 'd GasSportsCar" where
  "GasSportsCar_brake M v = v\<lparr>GasSportsCar.speed := from_int M 0\<rparr>"

definition GasSportsCar_getWork :: "'d GasSportsCar \<Rightarrow> 'd" where
  "GasSportsCar_getWork v = GasSportsCar.work v"

definition GasSportsCar_getBrand :: "'d GasSportsCar \<Rightarrow> string" where
  "GasSportsCar_getBrand v = GasSportsCar.brand v"

definition GasSportsCar_getModel :: "'d GasSportsCar \<Rightarrow> string" where
  "GasSportsCar_getModel v = GasSportsCar.model v"

section \<open>The virtual-dispatch hierarchy\<close>

text \<open>
  \<open>PolyVehicle\<close> holds the fields; the dynamic type of an object behind a
  \<^verbatim>\<open>Vehicle*\<close> is one of the two leaf classes, so a \<open>Vehicle\<close> is a \<open>PolyVehicle\<close>
  under the constructor of its class, and a virtual call is a case distinction on it.
\<close>

record 'd PolyVehicle =
  speed :: 'd
  work :: 'd
  calculations :: "'d list"

definition PolyVehicle_new :: "'d cmath \<Rightarrow> 'd PolyVehicle" where
  "PolyVehicle_new M =
     \<lparr>PolyVehicle.speed = lit M 0, work = lit M 0,
      calculations = replicate VECTOR_SIZE (lit M 0)\<rparr>"

datatype 'd Vehicle = PolyElectricCar "'d PolyVehicle" | PolyGasCar "'d PolyVehicle"

fun base_of :: "'d Vehicle \<Rightarrow> 'd PolyVehicle" where
  "base_of (PolyElectricCar p) = p"
| "base_of (PolyGasCar p) = p"

fun with_base :: "'d Vehicle \<Rightarrow> 'd PolyVehicle \<Rightarrow> 'd Vehicle" where
  "with_base (PolyElectricCar _) p = PolyElectricCar p"
| "with_base (PolyGasCar _) p = PolyGasCar p"

definition PolyElectricCar_new :: "'d cmath \<Rightarrow> 'd Vehicle" where
  "PolyElectricCar_new M = PolyElectricCar (PolyVehicle_new M)"

definition PolyGasCar_new :: "'d cmath \<Rightarrow> 'd Vehicle" where
  "PolyGasCar_new M = PolyGasCar (PolyVehicle_new M)"

fun getFriction :: "'d cmath \<Rightarrow> 'd Vehicle \<Rightarrow> 'd" where
  "getFriction M (PolyElectricCar _) = ELECTRIC_FRICTION M"
| "getFriction M (PolyGasCar _) = GAS_FRICTION M"

definition PolyVehicle_accelerate ::
  "('d::{plus,times}) cmath \<Rightarrow> 'd \<Rightarrow> 'd Vehicle \<Rightarrow> error + 'd Vehicle" where
  "PolyVehicle_accelerate M s v =
     (let speed' = PolyVehicle.speed (base_of v) + s * getFriction M v in
      case doAcceleration M speed' (PolyVehicle.work (base_of v))
             (PolyVehicle.calculations (base_of v)) of
        Inl e \<Rightarrow> Inl e
      | Inr (work', calculations') \<Rightarrow>
          Inr (with_base v ((base_of v)\<lparr>PolyVehicle.speed := speed', PolyVehicle.work := work',
                 PolyVehicle.calculations := calculations'\<rparr>)))"

definition getCurrentSpeed :: "'d Vehicle \<Rightarrow> 'd" where
  "getCurrentSpeed v = PolyVehicle.speed (base_of v)"

definition PolyVehicle_getWork :: "'d Vehicle \<Rightarrow> 'd" where
  "PolyVehicle_getWork v = PolyVehicle.work (base_of v)"

text \<open>
  \<^verbatim>\<open>PolyElectricCar::brake\<close> reads \<open>speed\<close> for the regenerated work before it clears
  it; \<^verbatim>\<open>PolyGasCar::brake\<close> only clears it.
\<close>

fun brake :: "('d::{plus,times}) cmath \<Rightarrow> 'd Vehicle \<Rightarrow> 'd Vehicle" where
  "brake M (PolyElectricCar p) =
     PolyElectricCar (p\<lparr>PolyVehicle.work := PolyVehicle.work p + PolyVehicle.speed p * ELECTRIC_FRICTION M,
                        PolyVehicle.speed := from_int M 0\<rparr>)"
| "brake M (PolyGasCar p) = PolyGasCar (p\<lparr>PolyVehicle.speed := from_int M 0\<rparr>)"

declare doAcceleration_loop.simps [simp del]

section \<open>Sequences of calls\<close>

text \<open>
  A caller of a vehicle issues \<^verbatim>\<open>accelerate(s)\<close> and \<^verbatim>\<open>brake()\<close> calls; a run
  stops at the first call that fails.
\<close>

datatype 'd call = Accelerate 'd | Brake

fun ElectricSportsCar_call ::
  "('d::{plus,times}) cmath \<Rightarrow> 'd call \<Rightarrow> 'd ElectricSportsCar \<Rightarrow> error + 'd ElectricSportsCar" where
  "ElectricSportsCar_call M (Accelerate s) v = ElectricSportsCar_accelerate M s v"
| "ElectricSportsCar_call M Brake v = Inr (ElectricSportsCar_brake M v)"

fun ElectricSportsCar_run ::
  "('d::{plus,times}) cmath \<Rightarrow> 'd call list \<Rightarrow> 'd ElectricSportsCar \<Rightarrow> error + 'd ElectricSportsCar" where
  "ElectricSportsCar_run M [] v = Inr v"
| "ElectricSportsCar_run M (c # cs) v =
     (case ElectricSportsCar_call M c v of
        Inl e \<Rightarrow> Inl e
      | Inr v' \<Rightarrow> ElectricSportsCar_run M cs v')"

fun GasSportsCar_call ::
  "('d::{plus,times}) cmath \<Rightarrow> 'd call \<Rightarrow> 'd GasSportsCar \<Rightarrow> error + 'd GasSportsCar" where
  "GasSportsCar_call M (Accelerate s) v = GasSportsCar_accelerate M s v"
| "GasSportsCar_call M Brake v = Inr (GasSportsCar_brake M v)"

fun GasSportsCar_run ::
  "('d::{plus,times}) cmath \<Rightarrow> 'd call list \<Rightarrow> 'd GasSportsCar \<Rightarrow> error + 'd GasSportsCar" where
  "GasSportsCar_run M [] v = Inr v"
| "GasSportsCar_run M (c # cs) v =
     (case GasSportsCar_call M c v of
        Inl e \<Rightarrow> Inl e
      | Inr v' \<Rightarrow> GasSportsCar_run M cs v')"

fun Vehicle_call ::
  "('d::{plus,times}) cmath \<Rightarrow> 'd call \<Rightarrow> 'd Vehicle \<Rightarrow> error + 'd Vehicle" where
  "Vehicle_call M (Accelerate s) v = PolyVehicle_accelerate M s v"
| "Vehicle_call M Brake v = Inr (brake M v)"

fun Vehicle_run ::
  "('d::{plus,times}) cmath \<Rightarrow> 'd call list \<Rightarrow> 'd Vehicle \<Rightarrow> error + 'd Vehicle" where
  "Vehicle_run M [] v = Inr v"
| "Vehicle_run M (c # cs) v =
     (case Vehicle_call M c v of
        Inl e \<Rightarrow> Inl e
      | Inr v' \<Rightarrow> Vehicle_run M cs v')"

section \<open>The kernel's sum, as the specification words it\<close>

text \<open>
  The value stored at index \<open>i\<close>, the term added to \<open>work\<close> for index \<open>i\<close>, and the
  sum of the terms of the indices below \<open>n\<close> added to \<open>w\<close> one after the other in index
  order (double addition is not associative, so the order is part of the sum).
\<close>

definition spec_calculation :: "('d::{plus,times}) cmath \<Rightarrow> 'd \<Rightarrow> nat \<Rightarrow> 'd" where
  "spec_calculation M sp i =
     std_sin M (sp * from_int M (int i)) * std_cos M (from_int M (int i) * lit M (1 / 2))
       * std_tan M sp"

definition spec_term :: "('d::{plus,times}) cmath \<Rightarrow> 'd \<Rightarrow> nat \<Rightarrow> 'd" where
  "spec_term M sp i = spec_calculation M sp i * std_sqrt M (sp + from_int M (int i))"

fun spec_work_sum :: "('d::{plus,times}) cmath \<Rightarrow> 'd \<Rightarrow> 'd \<Rightarrow> nat \<Rightarrow> 'd" where
  "spec_work_sum M sp w 0 = w"
| "spec_work_sum M sp w (Suc n) = spec_work_sum M sp w n + spec_term M sp n"

section \<open>The benchmark driver\<close>

text \<open>
  \<^verbatim>\<open>CarPtr\<close> is \<^verbatim>\<open>std::variant<ElectricSportsCar*, GasSportsCar*>\<close>. The only
  pointers ever stored are \<^verbatim>\<open>&tesla\<close> and \<^verbatim>\<open>&porsche\<close>, so a value of the variant is
  the alternative it holds, and \<^verbatim>\<open>std::get\<close> of the other alternative throws.
\<close>

datatype CarPtr = ElectricSportsCar_ptr | GasSportsCar_ptr

definition ConceptBased_vehicles :: "CarPtr list" where
  "ConceptBased_vehicles = [ElectricSportsCar_ptr, GasSportsCar_ptr]"

fun std_get_ElectricSportsCar :: "CarPtr \<Rightarrow> error + unit" where
  "std_get_ElectricSportsCar ElectricSportsCar_ptr = Inr ()"
| "std_get_ElectricSportsCar GasSportsCar_ptr = Inl BadVariantAccess"

fun std_get_GasSportsCar :: "CarPtr \<Rightarrow> error + unit" where
  "std_get_GasSportsCar GasSportsCar_ptr = Inr ()"
| "std_get_GasSportsCar ElectricSportsCar_ptr = Inl BadVariantAccess"

record 'd ConceptBased_locals =
  tesla :: "'d ElectricSportsCar"
  porsche :: "'d GasSportsCar"
  total_work :: 'd

definition BM_ConceptBased_init :: "'d cmath \<Rightarrow> 'd ConceptBased_locals" where
  "BM_ConceptBased_init M =
     \<lparr>tesla = ElectricSportsCar_new M ''Tesla'' ''Model S'',
      porsche = GasSportsCar_new M ''Porsche'' ''911'',
      total_work = from_int M 0\<rparr>"

text \<open>The body of the inner loop of \<^verbatim>\<open>BM_ConceptBased\<close>, statement by statement.\<close>

definition BM_ConceptBased_body ::
  "('d::{plus,times}) cmath \<Rightarrow> 'd ConceptBased_locals \<Rightarrow> error + 'd ConceptBased_locals" where
  "BM_ConceptBased_body M st =
     (case std_get_ElectricSportsCar (ConceptBased_vehicles ! 0) of
        Inl e \<Rightarrow> Inl e
      | Inr _ \<Rightarrow>
     (case ElectricSportsCar_accelerate M (ACCELERATION_VALUE M) (tesla st) of
        Inl e \<Rightarrow> Inl e
      | Inr electric \<Rightarrow>
     (let st1 = st\<lparr>tesla := electric\<rparr>;
          st2 = st1\<lparr>total_work := total_work st1 + ElectricSportsCar_getWork (tesla st1)\<rparr>;
          st3 = st2\<lparr>tesla := ElectricSportsCar_brake M (tesla st2)\<rparr>
      in
     (case std_get_GasSportsCar (ConceptBased_vehicles ! 1) of
        Inl e \<Rightarrow> Inl e
      | Inr _ \<Rightarrow>
     (case GasSportsCar_accelerate M (ACCELERATION_VALUE M) (porsche st3) of
        Inl e \<Rightarrow> Inl e
      | Inr gas \<Rightarrow>
     (let st4 = st3\<lparr>porsche := gas\<rparr>;
          st5 = st4\<lparr>total_work := total_work st4 + GasSportsCar_getWork (porsche st4)\<rparr>
      in Inr (st5\<lparr>porsche := GasSportsCar_brake M (porsche st5)\<rparr>)))))))"

function BM_ConceptBased_inner ::
  "('d::{plus,times}) cmath \<Rightarrow> nat \<Rightarrow> 'd ConceptBased_locals \<Rightarrow> error + 'd ConceptBased_locals" where
  "BM_ConceptBased_inner M i st =
     (if i < INNER_LOOP_COUNT then
        (case BM_ConceptBased_body M st of
           Inl e \<Rightarrow> Inl e
         | Inr st' \<Rightarrow> BM_ConceptBased_inner M (Suc i) st')
      else Inr st)"
  by pat_completeness auto
termination
  by (relation "measure (\<lambda>(M, i, st). INNER_LOOP_COUNT - i)") auto

text \<open>
  One measured iteration, the body of \<^verbatim>\<open>for (auto _ : state)\<close>:
  \<^verbatim>\<open>benchmark::ClobberMemory()\<close> changes no value.
\<close>

definition BM_ConceptBased_iteration ::
  "('d::{plus,times}) cmath \<Rightarrow> 'd ConceptBased_locals \<Rightarrow> error + 'd ConceptBased_locals" where
  "BM_ConceptBased_iteration M st = BM_ConceptBased_inner M 0 st"

record 'd Polymorphic_locals =
  poly_tesla :: "'d Vehicle"
  poly_porsche :: "'d Vehicle"
  poly_total_work :: 'd

definition BM_Polymorphic_init :: "'d cmath \<Rightarrow> 'd Polymorphic_locals" where
  "BM_Polymorphic_init M =
     \<lparr>poly_tesla = PolyElectricCar_new M, poly_porsche = PolyGasCar_new M,
      poly_total_work = from_int M 0\<rparr>"

text \<open>
  In \<^verbatim>\<open>BM_Polymorphic\<close>, \<^verbatim>\<open>vehicles[0]\<close> and \<^verbatim>\<open>vehicles[1]\<close> point to \<^verbatim>\<open>tesla\<close> and
  \<^verbatim>\<open>porsche\<close>: a call through the pointer acts on the local.
\<close>

definition BM_Polymorphic_body ::
  "('d::{plus,times}) cmath \<Rightarrow> 'd Polymorphic_locals \<Rightarrow> error + 'd Polymorphic_locals" where
  "BM_Polymorphic_body M st =
     (case PolyVehicle_accelerate M (ACCELERATION_VALUE M) (poly_tesla st) of
        Inl e \<Rightarrow> Inl e
      | Inr electric \<Rightarrow>
     (let st1 = st\<lparr>poly_tesla := electric\<rparr>;
          st2 = st1\<lparr>poly_total_work := poly_total_work st1 + PolyVehicle_getWork (poly_tesla st1)\<rparr>;
          st3 = st2\<lparr>poly_tesla := brake M (poly_tesla st2)\<rparr>
      in
     (case PolyVehicle_accelerate M (ACCELERATION_VALUE M) (poly_porsche st3) of
        Inl e \<Rightarrow> Inl e
      | Inr gas \<Rightarrow>
     (let st4 = st3\<lparr>poly_porsche := gas\<rparr>;
          st5 = st4\<lparr>poly_total_work := poly_total_work st4 + PolyVehicle_getWork (poly_porsche st4)\<rparr>
      in Inr (st5\<lparr>poly_porsche := brake M (poly_porsche st5)\<rparr>)))))"

function BM_Polymorphic_inner ::
  "('d::{plus,times}) cmath \<Rightarrow> nat \<Rightarrow> 'd Polymorphic_locals \<Rightarrow> error + 'd Polymorphic_locals" where
  "BM_Polymorphic_inner M i st =
     (if i < INNER_LOOP_COUNT then
        (case BM_Polymorphic_body M st of
           Inl e \<Rightarrow> Inl e
         | Inr st' \<Rightarrow> BM_Polymorphic_inner M (Suc i) st')
      else Inr st)"
  by pat_completeness auto
termination
  by (relation "measure (\<lambda>(M, i, st). INNER_LOOP_COUNT - i)") auto

definition BM_Polymorphic_iteration ::
  "('d::{plus,times}) cmath \<Rightarrow> 'd Polymorphic_locals \<Rightarrow> error + 'd Polymorphic_locals" where
  "BM_Polymorphic_iteration M st = BM_Polymorphic_inner M 0 st"

declare BM_ConceptBased_inner.simps [simp del] BM_Polymorphic_inner.simps [simp del]

section \<open>main: the registration of the two benchmarks\<close>

text \<open>
  \<^verbatim>\<open>benchmark::RegisterBenchmark\<close> returns the library's benchmark object, on which
  \<^verbatim>\<open>main\<close> chains four setters. The library is not part of the repository: the object
  it hands back is a parameter \<open>b0\<close> of the model, and each setter stores its argument
  in the setting it is named after.
\<close>

datatype TimeUnit = kNanosecond | kMicrosecond | kMillisecond | kSecond

datatype BenchmarkFunction = BM_ConceptBased | BM_Polymorphic

record 'd Benchmark =
  bm_name :: string
  bm_function :: BenchmarkFunction
  time_unit :: TimeUnit
  use_real_time :: bool
  min_time :: 'd
  iterations :: nat

definition RegisterBenchmark ::
  "'d Benchmark \<Rightarrow> string \<Rightarrow> BenchmarkFunction \<Rightarrow> 'd Benchmark" where
  "RegisterBenchmark b0 n f = b0\<lparr>bm_name := n, bm_function := f\<rparr>"

definition Unit :: "TimeUnit \<Rightarrow> 'd Benchmark \<Rightarrow> 'd Benchmark" where
  "Unit u b = b\<lparr>time_unit := u\<rparr>"

definition UseRealTime :: "'d Benchmark \<Rightarrow> 'd Benchmark" where
  "UseRealTime b = b\<lparr>use_real_time := True\<rparr>"

definition MinTime :: "'d \<Rightarrow> 'd Benchmark \<Rightarrow> 'd Benchmark" where
  "MinTime t b = b\<lparr>min_time := t\<rparr>"

definition Iterations :: "nat \<Rightarrow> 'd Benchmark \<Rightarrow> 'd Benchmark" where
  "Iterations n b = b\<lparr>iterations := n\<rparr>"

definition main_registrations :: "'d cmath \<Rightarrow> 'd Benchmark \<Rightarrow> 'd Benchmark list" where
  "main_registrations M b0 =
     [Iterations BENCHMARK_ITERATIONS (MinTime (MIN_TIME M) (UseRealTime (Unit kMillisecond
        (RegisterBenchmark b0 ''ConceptBased'' BM_ConceptBased)))),
      Iterations BENCHMARK_ITERATIONS (MinTime (MIN_TIME M) (UseRealTime (Unit kMillisecond
        (RegisterBenchmark b0 ''Polymorphic'' BM_Polymorphic))))]"

section \<open>Auxiliary notions of the statements\<close>

text \<open>Continuing with \<open>f\<close> after a step that did not fail.\<close>

definition on_success :: "('s \<Rightarrow> error + 's) \<Rightarrow> error + 's \<Rightarrow> error + 's" where
  "on_success f r = (case r of Inl e \<Rightarrow> Inl e | Inr s \<Rightarrow> f s)"

text \<open>
  An \<open>ElectricSportsCar\<close> and a \<open>GasSportsCar\<close> in the same numeric state, with a buffer
  of the length the constructors give it.
\<close>

definition same_state :: "'d ElectricSportsCar \<Rightarrow> 'd GasSportsCar \<Rightarrow> bool" where
  "same_state e g \<longleftrightarrow>
     ElectricSportsCar.speed e = GasSportsCar.speed g
     \<and> ElectricSportsCar.work e = GasSportsCar.work g
     \<and> ElectricSportsCar.calculations e = GasSportsCar.calculations g
     \<and> length (ElectricSportsCar.calculations e) = VECTOR_SIZE"

section \<open>The kernel computes the sum\<close>

lemma doAcceleration_loop_spec:
  "i \<le> VECTOR_SIZE \<Longrightarrow> length cs = VECTOR_SIZE \<Longrightarrow>
   doAcceleration_loop M sp i (spec_work_sum M sp w i, cs) =
     Inr (spec_work_sum M sp w VECTOR_SIZE,
          take i cs @ map (spec_calculation M sp) [i..<VECTOR_SIZE])"
proof (induction "VECTOR_SIZE - i" arbitrary: i cs)
  case 0
  then have "i = VECTOR_SIZE" by simp
  with 0 show ?case by (simp add: doAcceleration_loop.simps)
next
  case (Suc k)
  then have lt: "i < VECTOR_SIZE" and k: "k = VECTOR_SIZE - Suc i" by simp_all
  let ?c = "spec_calculation M sp i"
  let ?cs = "cs[i := ?c]"
  have len: "length ?cs = VECTOR_SIZE" using Suc.prems by simp
  have step: "doAcceleration_loop M sp i (spec_work_sum M sp w i, cs) =
      doAcceleration_loop M sp (Suc i) (spec_work_sum M sp w (Suc i), ?cs)"
    using lt Suc.prems
    by (subst doAcceleration_loop.simps) (simp add: spec_calculation_def spec_term_def)
  have ih: "doAcceleration_loop M sp (Suc i) (spec_work_sum M sp w (Suc i), ?cs) =
      Inr (spec_work_sum M sp w VECTOR_SIZE,
           take (Suc i) ?cs @ map (spec_calculation M sp) [Suc i..<VECTOR_SIZE])"
    using Suc.hyps(1) [OF k _ len] lt by simp
  have "take (Suc i) ?cs = take i cs @ [?c]"
    using lt Suc.prems by (simp add: take_Suc_conv_app_nth)
  moreover have "[i..<VECTOR_SIZE] = i # [Suc i..<VECTOR_SIZE]"
    using lt by (simp add: upt_conv_Cons)
  ultimately show ?case using step ih by simp
qed

lemma doAcceleration_spec:
  "length cs = VECTOR_SIZE \<Longrightarrow>
   doAcceleration M sp w cs =
     Inr (spec_work_sum M sp w VECTOR_SIZE, map (spec_calculation M sp) [0..<VECTOR_SIZE])"
  using doAcceleration_loop_spec [of 0 cs M sp w] by (simp add: doAcceleration_def)

lemma ElectricSportsCar_accelerate_spec:
  "length (ElectricSportsCar.calculations v) = VECTOR_SIZE \<Longrightarrow>
   ElectricSportsCar_accelerate M s v =
     Inr (v\<lparr>ElectricSportsCar.speed := ElectricSportsCar.speed v + s,
            ElectricSportsCar.work :=
              spec_work_sum M (ElectricSportsCar.speed v + s) (ElectricSportsCar.work v) VECTOR_SIZE,
            ElectricSportsCar.calculations :=
              map (spec_calculation M (ElectricSportsCar.speed v + s)) [0..<VECTOR_SIZE]\<rparr>)"
  by (simp add: ElectricSportsCar_accelerate_def doAcceleration_spec Let_def)

lemma GasSportsCar_accelerate_spec:
  "length (GasSportsCar.calculations v) = VECTOR_SIZE \<Longrightarrow>
   GasSportsCar_accelerate M s v =
     Inr (v\<lparr>GasSportsCar.speed := GasSportsCar.speed v + s,
            GasSportsCar.work :=
              spec_work_sum M (GasSportsCar.speed v + s) (GasSportsCar.work v) VECTOR_SIZE,
            GasSportsCar.calculations :=
              map (spec_calculation M (GasSportsCar.speed v + s)) [0..<VECTOR_SIZE]\<rparr>)"
  by (simp add: GasSportsCar_accelerate_def doAcceleration_spec Let_def)

lemma PolyVehicle_accelerate_spec:
  "length (PolyVehicle.calculations (base_of v)) = VECTOR_SIZE \<Longrightarrow>
   PolyVehicle_accelerate M s v =
     Inr (with_base v ((base_of v)
        \<lparr>PolyVehicle.speed := PolyVehicle.speed (base_of v) + s * getFriction M v,
         PolyVehicle.work :=
           spec_work_sum M (PolyVehicle.speed (base_of v) + s * getFriction M v)
             (PolyVehicle.work (base_of v)) VECTOR_SIZE,
         PolyVehicle.calculations :=
           map (spec_calculation M (PolyVehicle.speed (base_of v) + s * getFriction M v))
             [0..<VECTOR_SIZE]\<rparr>))"
  by (simp add: PolyVehicle_accelerate_def doAcceleration_spec Let_def)

lemma base_of_with_base: "base_of (with_base v p) = p"
  by (cases v) simp_all

lemma spec_work_sum_real:
  "spec_work_sum real_cmath sp w n =
     w + (\<Sum>i<n. sin (sp * real i) * cos (real i * (1 / 2)) * tan sp * sqrt (sp + real i))"
  by (induction n) (simp_all add: spec_term_def spec_calculation_def real_cmath_def)

text \<open>
  Claim C1. On an \<open>ElectricSportsCar\<close> or a \<open>GasSportsCar\<close> whose buffer has the length
  the constructor gave it, \<^verbatim>\<open>accelerate(s)\<close> returns normally, adds \<open>s\<close> to \<open>speed\<close>
  and runs the kernel on the new speed: for every index \<open>i\<close> in 0..9999,
  \<open>calculations[i]\<close> becomes \<open>sin(speed*i) * cos(i*0.5) * tan(speed)\<close>, and \<open>work\<close>
  grows by the terms \<open>calculations[i] * sqrt(speed + i)\<close>, added in index order. For a
  freshly constructed \<open>ElectricSportsCar\<close>, provided \<open>0.0 + 50.0\<close> is \<open>50.0\<close>, one
  \<^verbatim>\<open>accelerate(50.0)\<close> leaves \<^verbatim>\<open>getWork()\<close> equal to that sum at speed 50 over the
  indices 0..9999, starting from \<open>0.0\<close>.
\<close>

theorem accelerate_runs_kernel:
  "(length (ElectricSportsCar.calculations e) = VECTOR_SIZE \<longrightarrow>
      ElectricSportsCar_accelerate M s e =
        Inr (e\<lparr>ElectricSportsCar.speed := ElectricSportsCar.speed e + s,
               ElectricSportsCar.work :=
                 spec_work_sum M (ElectricSportsCar.speed e + s) (ElectricSportsCar.work e) VECTOR_SIZE,
               ElectricSportsCar.calculations :=
                 map (spec_calculation M (ElectricSportsCar.speed e + s)) [0..<VECTOR_SIZE]\<rparr>))
   \<and> (length (GasSportsCar.calculations g) = VECTOR_SIZE \<longrightarrow>
      GasSportsCar_accelerate M s g =
        Inr (g\<lparr>GasSportsCar.speed := GasSportsCar.speed g + s,
               GasSportsCar.work :=
                 spec_work_sum M (GasSportsCar.speed g + s) (GasSportsCar.work g) VECTOR_SIZE,
               GasSportsCar.calculations :=
                 map (spec_calculation M (GasSportsCar.speed g + s)) [0..<VECTOR_SIZE]\<rparr>))
   \<and> (lit M 0 + lit M 50 = lit M 50 \<longrightarrow>
      (\<exists>v. ElectricSportsCar_accelerate M (lit M 50) (ElectricSportsCar_new M b m) = Inr v
         \<and> ElectricSportsCar_getWork v = spec_work_sum M (lit M 50) (lit M 0) 10000))"
proof (intro conjI impI)
  assume "lit M 0 + lit M 50 = lit M 50"
  moreover have "length (ElectricSportsCar.calculations (ElectricSportsCar_new M b m)) = VECTOR_SIZE"
    by (simp add: ElectricSportsCar_new_def)
  ultimately show "\<exists>v. ElectricSportsCar_accelerate M (lit M 50) (ElectricSportsCar_new M b m) = Inr v
         \<and> ElectricSportsCar_getWork v = spec_work_sum M (lit M 50) (lit M 0) 10000"
    by (simp add: ElectricSportsCar_accelerate_spec ElectricSportsCar_getWork_def
        ElectricSportsCar_new_def VECTOR_SIZE_def)
qed (simp_all add: ElectricSportsCar_accelerate_spec GasSportsCar_accelerate_spec)

theorem accelerate_runs_kernel_witness:
  "length (ElectricSportsCar.calculations (ElectricSportsCar_new real_cmath ''Tesla'' ''Model S'')) = VECTOR_SIZE
   \<and> length (GasSportsCar.calculations (GasSportsCar_new real_cmath ''Porsche'' ''911'')) = VECTOR_SIZE
   \<and> lit real_cmath 0 + lit real_cmath 50 = lit real_cmath 50
   \<and> (\<exists>v. ElectricSportsCar_accelerate real_cmath 50 (ElectricSportsCar_new real_cmath ''Tesla'' ''Model S'') = Inr v
        \<and> ElectricSportsCar_getWork v =
            (\<Sum>i<10000. sin (50 * real i) * cos (real i * (1 / 2)) * tan 50 * sqrt (50 + real i)))
   \<and> (\<exists>v. GasSportsCar_accelerate real_cmath 50 (GasSportsCar_new real_cmath ''Porsche'' ''911'') = Inr v
        \<and> GasSportsCar.speed v = 50)"
proof -
  have a: "lit real_cmath 0 + lit real_cmath 50 = lit real_cmath 50"
    by (simp add: real_cmath_def)
  have l: "lit real_cmath 50 = 50" "lit real_cmath 0 = 0"
    by (simp_all add: real_cmath_def)
  have le: "length (ElectricSportsCar.calculations (ElectricSportsCar_new real_cmath ''Tesla'' ''Model S'')) = VECTOR_SIZE"
    by (simp add: ElectricSportsCar_new_def)
  have lg: "length (GasSportsCar.calculations (GasSportsCar_new real_cmath ''Porsche'' ''911'')) = VECTOR_SIZE"
    by (simp add: GasSportsCar_new_def)
  have sp: "GasSportsCar.speed (GasSportsCar_new real_cmath ''Porsche'' ''911'') = 0"
    by (simp add: GasSportsCar_new_def real_cmath_def)
  note t = accelerate_runs_kernel [of "ElectricSportsCar_new real_cmath ''Tesla'' ''Model S''"
      real_cmath 50 "GasSportsCar_new real_cmath ''Porsche'' ''911''" "''Tesla''" "''Model S''"]
  from t a have "\<exists>v. ElectricSportsCar_accelerate real_cmath (lit real_cmath 50) (ElectricSportsCar_new real_cmath ''Tesla'' ''Model S'') = Inr v
         \<and> ElectricSportsCar_getWork v = spec_work_sum real_cmath (lit real_cmath 50) (lit real_cmath 0) 10000"
    by blast
  then have e: "\<exists>v. ElectricSportsCar_accelerate real_cmath 50 (ElectricSportsCar_new real_cmath ''Tesla'' ''Model S'') = Inr v
        \<and> ElectricSportsCar_getWork v =
            (\<Sum>i<10000. sin (50 * real i) * cos (real i * (1 / 2)) * tan 50 * sqrt (50 + real i))"
    by (simp add: l spec_work_sum_real)
  from t lg sp have g: "\<exists>v. GasSportsCar_accelerate real_cmath 50 (GasSportsCar_new real_cmath ''Porsche'' ''911'') = Inr v
        \<and> GasSportsCar.speed v = 50"
    by simp
  from a le lg e g show ?thesis by blast
qed


section \<open>Invariants of runs\<close>

lemma ElectricSportsCar_call_length:
  "length (ElectricSportsCar.calculations v) = VECTOR_SIZE \<Longrightarrow>
   \<exists>v'. ElectricSportsCar_call M c v = Inr v'
     \<and> length (ElectricSportsCar.calculations v') = VECTOR_SIZE"
  by (cases c) (simp_all add: ElectricSportsCar_accelerate_spec ElectricSportsCar_brake_def)

lemma ElectricSportsCar_run_length:
  "length (ElectricSportsCar.calculations v) = VECTOR_SIZE \<Longrightarrow>
   \<exists>v'. ElectricSportsCar_run M cs v = Inr v'
     \<and> length (ElectricSportsCar.calculations v') = VECTOR_SIZE"
proof (induction cs arbitrary: v)
  case Nil
  then show ?case by simp
next
  case (Cons c cs)
  from ElectricSportsCar_call_length [OF Cons.prems, of M c]
  obtain v' where "ElectricSportsCar_call M c v = Inr v'"
    and "length (ElectricSportsCar.calculations v') = VECTOR_SIZE" by blast
  with Cons.IH [of v'] show ?case by simp
qed

lemma GasSportsCar_call_length:
  "length (GasSportsCar.calculations v) = VECTOR_SIZE \<Longrightarrow>
   \<exists>v'. GasSportsCar_call M c v = Inr v'
     \<and> length (GasSportsCar.calculations v') = VECTOR_SIZE"
  by (cases c) (simp_all add: GasSportsCar_accelerate_spec GasSportsCar_brake_def)

lemma GasSportsCar_run_length:
  "length (GasSportsCar.calculations v) = VECTOR_SIZE \<Longrightarrow>
   \<exists>v'. GasSportsCar_run M cs v = Inr v'
     \<and> length (GasSportsCar.calculations v') = VECTOR_SIZE"
proof (induction cs arbitrary: v)
  case Nil
  then show ?case by simp
next
  case (Cons c cs)
  from GasSportsCar_call_length [OF Cons.prems, of M c]
  obtain v' where "GasSportsCar_call M c v = Inr v'"
    and "length (GasSportsCar.calculations v') = VECTOR_SIZE" by blast
  with Cons.IH [of v'] show ?case by simp
qed

lemma brake_calculations:
  "PolyVehicle.calculations (base_of (brake M v)) = PolyVehicle.calculations (base_of v)"
  by (cases v) simp_all

lemma Vehicle_call_length:
  "length (PolyVehicle.calculations (base_of v)) = VECTOR_SIZE \<Longrightarrow>
   \<exists>v'. Vehicle_call M c v = Inr v'
     \<and> length (PolyVehicle.calculations (base_of v')) = VECTOR_SIZE"
  by (cases c)
    (simp_all add: PolyVehicle_accelerate_spec base_of_with_base brake_calculations)

lemma Vehicle_run_length:
  "length (PolyVehicle.calculations (base_of v)) = VECTOR_SIZE \<Longrightarrow>
   \<exists>v'. Vehicle_run M cs v = Inr v'
     \<and> length (PolyVehicle.calculations (base_of v')) = VECTOR_SIZE"
proof (induction cs arbitrary: v)
  case Nil
  then show ?case by simp
next
  case (Cons c cs)
  from Vehicle_call_length [OF Cons.prems, of M c]
  obtain v' where "Vehicle_call M c v = Inr v'"
    and "length (PolyVehicle.calculations (base_of v')) = VECTOR_SIZE" by blast
  with Cons.IH [of v'] show ?case by simp
qed

text \<open>
  Claim C7. \<open>VECTOR_SIZE\<close> is 10000. Whatever sequence of \<^verbatim>\<open>accelerate\<close> and
  \<^verbatim>\<open>brake\<close> calls is made on a freshly constructed vehicle of any of the four
  classes, every call returns normally, so no index of the kernel is out of range, and
  the buffer has length \<open>VECTOR_SIZE\<close> at the end (with no call at all: right after
  construction).
\<close>

theorem calculations_length_constant:
  "VECTOR_SIZE = 10000
   \<and> (\<exists>v. ElectricSportsCar_run M cs (ElectricSportsCar_new M b m) = Inr v
        \<and> length (ElectricSportsCar.calculations v) = VECTOR_SIZE)
   \<and> (\<exists>v. GasSportsCar_run M cs (GasSportsCar_new M b m) = Inr v
        \<and> length (GasSportsCar.calculations v) = VECTOR_SIZE)
   \<and> (\<exists>v. Vehicle_run M cs (PolyElectricCar_new M) = Inr v
        \<and> length (PolyVehicle.calculations (base_of v)) = VECTOR_SIZE)
   \<and> (\<exists>v. Vehicle_run M cs (PolyGasCar_new M) = Inr v
        \<and> length (PolyVehicle.calculations (base_of v)) = VECTOR_SIZE)"
proof (intro conjI)
  show "VECTOR_SIZE = 10000" by (simp add: VECTOR_SIZE_def)
  show "\<exists>v. ElectricSportsCar_run M cs (ElectricSportsCar_new M b m) = Inr v
        \<and> length (ElectricSportsCar.calculations v) = VECTOR_SIZE"
    by (rule ElectricSportsCar_run_length) (simp add: ElectricSportsCar_new_def)
  show "\<exists>v. GasSportsCar_run M cs (GasSportsCar_new M b m) = Inr v
        \<and> length (GasSportsCar.calculations v) = VECTOR_SIZE"
    by (rule GasSportsCar_run_length) (simp add: GasSportsCar_new_def)
  show "\<exists>v. Vehicle_run M cs (PolyElectricCar_new M) = Inr v
        \<and> length (PolyVehicle.calculations (base_of v)) = VECTOR_SIZE"
    by (rule Vehicle_run_length) (simp add: PolyElectricCar_new_def PolyVehicle_new_def)
  show "\<exists>v. Vehicle_run M cs (PolyGasCar_new M) = Inr v
        \<and> length (PolyVehicle.calculations (base_of v)) = VECTOR_SIZE"
    by (rule Vehicle_run_length) (simp add: PolyGasCar_new_def PolyVehicle_new_def)
qed

section \<open>The two generic-dispatch classes behave alike\<close>

lemma same_state_call:
  "same_state e g \<Longrightarrow>
   \<exists>e' g'. ElectricSportsCar_call M c e = Inr e' \<and> GasSportsCar_call M c g = Inr g'
     \<and> same_state e' g'"
proof -
  assume s: "same_state e g"
  then have le: "length (ElectricSportsCar.calculations e) = VECTOR_SIZE"
    and lg: "length (GasSportsCar.calculations g) = VECTOR_SIZE"
    by (auto simp add: same_state_def)
  show ?thesis
  proof (cases c)
    case (Accelerate x)
    with s show ?thesis
      by (simp add: ElectricSportsCar_accelerate_spec [OF le] GasSportsCar_accelerate_spec [OF lg]
          same_state_def)
  next
    case Brake
    with s show ?thesis
      by (auto simp add: ElectricSportsCar_brake_def GasSportsCar_brake_def same_state_def)
  qed
qed

lemma same_state_run:
  "same_state e g \<Longrightarrow>
   \<exists>e' g'. ElectricSportsCar_run M cs e = Inr e' \<and> GasSportsCar_run M cs g = Inr g'
     \<and> same_state e' g'"
proof (induction cs arbitrary: e g)
  case Nil
  then show ?case by simp
next
  case (Cons c cs)
  from same_state_call [OF Cons.prems, of M c]
  obtain e' g' where "ElectricSportsCar_call M c e = Inr e'"
    and "GasSportsCar_call M c g = Inr g'" and "same_state e' g'" by blast
  with Cons.IH [of e' g'] show ?case by simp
qed

text \<open>
  Claim C8. The same sequence of \<^verbatim>\<open>accelerate\<close> and \<^verbatim>\<open>brake\<close> calls on a freshly
  constructed \<open>ElectricSportsCar\<close> and on a freshly constructed \<open>GasSportsCar\<close>
  (of any brands and models) completes on both and leaves them with equal \<open>speed\<close>,
  equal \<open>work\<close>, equal buffers and equal \<^verbatim>\<open>getWork()\<close>.
\<close>

theorem ElectricSportsCar_GasSportsCar_equivalent:
  "\<exists>e g. ElectricSportsCar_run M cs (ElectricSportsCar_new M b m) = Inr e
     \<and> GasSportsCar_run M cs (GasSportsCar_new M b' m') = Inr g
     \<and> ElectricSportsCar.speed e = GasSportsCar.speed g
     \<and> ElectricSportsCar.work e = GasSportsCar.work g
     \<and> ElectricSportsCar.calculations e = GasSportsCar.calculations g
     \<and> ElectricSportsCar_getWork e = GasSportsCar_getWork g"
proof -
  have "same_state (ElectricSportsCar_new M b m) (GasSportsCar_new M b' m')"
    by (simp add: same_state_def ElectricSportsCar_new_def GasSportsCar_new_def)
  from same_state_run [OF this, of M cs] show ?thesis
    by (auto simp: same_state_def ElectricSportsCar_getWork_def GasSportsCar_getWork_def)
qed

text \<open>
  Claim C10. \<^verbatim>\<open>brake()\<close> of an \<open>ElectricSportsCar\<close> or a \<open>GasSportsCar\<close> changes the
  field \<open>speed\<close> only, to zero: \<open>work\<close>, the buffer, \<^verbatim>\<open>getWork()\<close>,
  \<^verbatim>\<open>getBrand()\<close> and \<^verbatim>\<open>getModel()\<close> are the same before and after.
\<close>

theorem brake_changes_speed_only:
  "ElectricSportsCar_brake M e = e\<lparr>ElectricSportsCar.speed := from_int M 0\<rparr>
   \<and> ElectricSportsCar.work (ElectricSportsCar_brake M e) = ElectricSportsCar.work e
   \<and> ElectricSportsCar.calculations (ElectricSportsCar_brake M e) = ElectricSportsCar.calculations e
   \<and> ElectricSportsCar_getWork (ElectricSportsCar_brake M e) = ElectricSportsCar_getWork e
   \<and> ElectricSportsCar_getBrand (ElectricSportsCar_brake M e) = ElectricSportsCar_getBrand e
   \<and> ElectricSportsCar_getModel (ElectricSportsCar_brake M e) = ElectricSportsCar_getModel e
   \<and> GasSportsCar_brake M g = g\<lparr>GasSportsCar.speed := from_int M 0\<rparr>
   \<and> GasSportsCar.work (GasSportsCar_brake M g) = GasSportsCar.work g
   \<and> GasSportsCar.calculations (GasSportsCar_brake M g) = GasSportsCar.calculations g
   \<and> GasSportsCar_getWork (GasSportsCar_brake M g) = GasSportsCar_getWork g
   \<and> GasSportsCar_getBrand (GasSportsCar_brake M g) = GasSportsCar_getBrand g
   \<and> GasSportsCar_getModel (GasSportsCar_brake M g) = GasSportsCar_getModel g"
  by (simp add: ElectricSportsCar_brake_def GasSportsCar_brake_def
      ElectricSportsCar_getWork_def ElectricSportsCar_getBrand_def ElectricSportsCar_getModel_def
      GasSportsCar_getWork_def GasSportsCar_getBrand_def GasSportsCar_getModel_def)

text \<open>
  Claim C3. \<^verbatim>\<open>PolyElectricCar::brake()\<close> leaves \<open>work\<close> at the old \<open>work\<close> plus the old
  \<open>speed\<close> times \<open>ELECTRIC_FRICTION\<close>, which is 0.85, and \<^verbatim>\<open>PolyGasCar::brake()\<close>
  leaves \<open>work\<close> as it was; after either, \<^verbatim>\<open>getCurrentSpeed()\<close> returns the zero that
  \<^verbatim>\<open>speed = 0\<close> stored.
\<close>

theorem poly_brake_work_and_speed:
  "PolyVehicle_getWork (brake M (PolyElectricCar p)) =
       PolyVehicle.work p + PolyVehicle.speed p * ELECTRIC_FRICTION M
   \<and> ELECTRIC_FRICTION M = lit M (85 / 100)
   \<and> getCurrentSpeed (brake M (PolyElectricCar p)) = from_int M 0
   \<and> PolyVehicle_getWork (brake M (PolyGasCar p)) = PolyVehicle.work p
   \<and> getCurrentSpeed (brake M (PolyGasCar p)) = from_int M 0"
  by (simp add: PolyVehicle_getWork_def getCurrentSpeed_def ELECTRIC_FRICTION_def)


text \<open>
  Claim C2. \<^verbatim>\<open>getFriction()\<close> is 0.85 on a \<open>PolyElectricCar\<close> and 0.95 on a
  \<open>PolyGasCar\<close>. On a vehicle of the hierarchy whose buffer has the constructor's
  length, \<^verbatim>\<open>accelerate(s)\<close> returns normally, adds \<open>s * getFriction()\<close> to \<open>speed\<close> and
  runs the kernel on that new speed; \<^verbatim>\<open>getCurrentSpeed()\<close> returns the new,
  friction-scaled speed. On a freshly constructed vehicle, provided adding the product
  to \<open>0.0\<close> gives the product, \<^verbatim>\<open>getCurrentSpeed()\<close> after one \<^verbatim>\<open>accelerate(s)\<close> is
  \<open>s * 0.85\<close> for the electric car and \<open>s * 0.95\<close> for the gas car.
\<close>

theorem poly_accelerate_scales_by_friction:
  "getFriction M (PolyElectricCar p) = lit M (85 / 100)
   \<and> getFriction M (PolyGasCar p) = lit M (95 / 100)
   \<and> (length (PolyVehicle.calculations (base_of v)) = VECTOR_SIZE \<longrightarrow>
        (\<exists>v'. PolyVehicle_accelerate M s v = Inr v'
           \<and> getCurrentSpeed v' = getCurrentSpeed v + s * getFriction M v
           \<and> PolyVehicle_getWork v' =
               spec_work_sum M (getCurrentSpeed v + s * getFriction M v)
                 (PolyVehicle_getWork v) VECTOR_SIZE
           \<and> PolyVehicle.calculations (base_of v') =
               map (spec_calculation M (getCurrentSpeed v + s * getFriction M v))
                 [0..<VECTOR_SIZE]
           \<and> getFriction M v' = getFriction M v))
   \<and> (lit M 0 + s * lit M (85 / 100) = s * lit M (85 / 100) \<longrightarrow>
        (\<exists>v'. PolyVehicle_accelerate M s (PolyElectricCar_new M) = Inr v'
           \<and> getCurrentSpeed v' = s * lit M (85 / 100)))
   \<and> (lit M 0 + s * lit M (95 / 100) = s * lit M (95 / 100) \<longrightarrow>
        (\<exists>v'. PolyVehicle_accelerate M s (PolyGasCar_new M) = Inr v'
           \<and> getCurrentSpeed v' = s * lit M (95 / 100)))"
proof (intro conjI impI)
  show "getFriction M (PolyElectricCar p) = lit M (85 / 100)"
    by (simp add: ELECTRIC_FRICTION_def)
  show "getFriction M (PolyGasCar p) = lit M (95 / 100)"
    by (simp add: GAS_FRICTION_def)
next
  assume "length (PolyVehicle.calculations (base_of v)) = VECTOR_SIZE"
  then show "\<exists>v'. PolyVehicle_accelerate M s v = Inr v'
           \<and> getCurrentSpeed v' = getCurrentSpeed v + s * getFriction M v
           \<and> PolyVehicle_getWork v' =
               spec_work_sum M (getCurrentSpeed v + s * getFriction M v)
                 (PolyVehicle_getWork v) VECTOR_SIZE
           \<and> PolyVehicle.calculations (base_of v') =
               map (spec_calculation M (getCurrentSpeed v + s * getFriction M v))
                 [0..<VECTOR_SIZE]
           \<and> getFriction M v' = getFriction M v"
    by (cases v)
      (simp_all add: PolyVehicle_accelerate_spec getCurrentSpeed_def PolyVehicle_getWork_def)
next
  assume "lit M 0 + s * lit M (85 / 100) = s * lit M (85 / 100)"
  then show "\<exists>v'. PolyVehicle_accelerate M s (PolyElectricCar_new M) = Inr v'
           \<and> getCurrentSpeed v' = s * lit M (85 / 100)"
    by (simp add: PolyVehicle_accelerate_spec getCurrentSpeed_def PolyElectricCar_new_def
        PolyVehicle_new_def ELECTRIC_FRICTION_def)
next
  assume "lit M 0 + s * lit M (95 / 100) = s * lit M (95 / 100)"
  then show "\<exists>v'. PolyVehicle_accelerate M s (PolyGasCar_new M) = Inr v'
           \<and> getCurrentSpeed v' = s * lit M (95 / 100)"
    by (simp add: PolyVehicle_accelerate_spec getCurrentSpeed_def PolyGasCar_new_def
        PolyVehicle_new_def GAS_FRICTION_def)
qed

theorem poly_accelerate_scales_by_friction_witness:
  "length (PolyVehicle.calculations (base_of (PolyElectricCar_new real_cmath))) = VECTOR_SIZE
   \<and> lit real_cmath 0 + 50 * lit real_cmath (85 / 100) = 50 * lit real_cmath (85 / 100)
   \<and> lit real_cmath 0 + 50 * lit real_cmath (95 / 100) = 50 * lit real_cmath (95 / 100)
   \<and> (\<exists>v'. PolyVehicle_accelerate real_cmath 50 (PolyElectricCar_new real_cmath) = Inr v'
        \<and> getCurrentSpeed v' = 85 / 2)
   \<and> (\<exists>v'. PolyVehicle_accelerate real_cmath 50 (PolyGasCar_new real_cmath) = Inr v'
        \<and> getCurrentSpeed v' = 95 / 2)"
proof -
  have l: "length (PolyVehicle.calculations (base_of (PolyElectricCar_new real_cmath))) = VECTOR_SIZE"
    by (simp add: PolyElectricCar_new_def PolyVehicle_new_def)
  have a: "lit real_cmath 0 + 50 * lit real_cmath (85 / 100) = 50 * lit real_cmath (85 / 100)"
    and b: "lit real_cmath 0 + 50 * lit real_cmath (95 / 100) = 50 * lit real_cmath (95 / 100)"
    by (simp_all add: real_cmath_def)
  have c: "50 * lit real_cmath (85 / 100) = 85 / 2" "50 * lit real_cmath (95 / 100) = 95 / 2"
    by (simp_all add: real_cmath_def)
  note t = poly_accelerate_scales_by_friction
    [of real_cmath _ "PolyElectricCar_new real_cmath" 50]
  from t a have "\<exists>v'. PolyVehicle_accelerate real_cmath 50 (PolyElectricCar_new real_cmath) = Inr v'
        \<and> getCurrentSpeed v' = 50 * lit real_cmath (85 / 100)"
    by blast
  then have e: "\<exists>v'. PolyVehicle_accelerate real_cmath 50 (PolyElectricCar_new real_cmath) = Inr v'
        \<and> getCurrentSpeed v' = 85 / 2"
    by (simp only: c)
  from t b have "\<exists>v'. PolyVehicle_accelerate real_cmath 50 (PolyGasCar_new real_cmath) = Inr v'
        \<and> getCurrentSpeed v' = 50 * lit real_cmath (95 / 100)"
    by blast
  then have g: "\<exists>v'. PolyVehicle_accelerate real_cmath 50 (PolyGasCar_new real_cmath) = Inr v'
        \<and> getCurrentSpeed v' = 95 / 2"
    by (simp only: c)
  from l a b e g show ?thesis by blast
qed

section \<open>The result does not depend on the scratch buffer\<close>

lemma ElectricSportsCar_call_same:
  assumes "ElectricSportsCar.speed e1 = ElectricSportsCar.speed e2"
    and "ElectricSportsCar.work e1 = ElectricSportsCar.work e2"
    and l1: "length (ElectricSportsCar.calculations e1) = VECTOR_SIZE"
    and l2: "length (ElectricSportsCar.calculations e2) = VECTOR_SIZE"
  shows "\<exists>e1' e2'. ElectricSportsCar_call M c e1 = Inr e1' \<and> ElectricSportsCar_call M c e2 = Inr e2'
     \<and> ElectricSportsCar.speed e1' = ElectricSportsCar.speed e2'
     \<and> ElectricSportsCar.work e1' = ElectricSportsCar.work e2'
     \<and> length (ElectricSportsCar.calculations e1') = VECTOR_SIZE
     \<and> length (ElectricSportsCar.calculations e2') = VECTOR_SIZE"
  using assms
  by (cases c)
    (simp_all add: ElectricSportsCar_accelerate_spec [OF l1] ElectricSportsCar_accelerate_spec [OF l2]
      ElectricSportsCar_brake_def)

lemma ElectricSportsCar_run_same:
  assumes "ElectricSportsCar.speed e1 = ElectricSportsCar.speed e2"
    and "ElectricSportsCar.work e1 = ElectricSportsCar.work e2"
    and "length (ElectricSportsCar.calculations e1) = VECTOR_SIZE"
    and "length (ElectricSportsCar.calculations e2) = VECTOR_SIZE"
  shows "\<exists>e1' e2'. ElectricSportsCar_run M cs e1 = Inr e1' \<and> ElectricSportsCar_run M cs e2 = Inr e2'
     \<and> ElectricSportsCar.work e1' = ElectricSportsCar.work e2'"
  using assms
proof (induction cs arbitrary: e1 e2)
  case Nil
  then show ?case by simp
next
  case (Cons c cs)
  from ElectricSportsCar_call_same [OF Cons.prems, of M c]
  obtain e1' e2' where "ElectricSportsCar_call M c e1 = Inr e1'"
    and "ElectricSportsCar_call M c e2 = Inr e2'"
    and "ElectricSportsCar.speed e1' = ElectricSportsCar.speed e2'"
    and "ElectricSportsCar.work e1' = ElectricSportsCar.work e2'"
    and "length (ElectricSportsCar.calculations e1') = VECTOR_SIZE"
    and "length (ElectricSportsCar.calculations e2') = VECTOR_SIZE" by blast
  with Cons.IH [of e1' e2'] show ?case by simp
qed

lemma GasSportsCar_call_same:
  assumes "GasSportsCar.speed g1 = GasSportsCar.speed g2"
    and "GasSportsCar.work g1 = GasSportsCar.work g2"
    and l1: "length (GasSportsCar.calculations g1) = VECTOR_SIZE"
    and l2: "length (GasSportsCar.calculations g2) = VECTOR_SIZE"
  shows "\<exists>g1' g2'. GasSportsCar_call M c g1 = Inr g1' \<and> GasSportsCar_call M c g2 = Inr g2'
     \<and> GasSportsCar.speed g1' = GasSportsCar.speed g2'
     \<and> GasSportsCar.work g1' = GasSportsCar.work g2'
     \<and> length (GasSportsCar.calculations g1') = VECTOR_SIZE
     \<and> length (GasSportsCar.calculations g2') = VECTOR_SIZE"
  using assms
  by (cases c)
    (simp_all add: GasSportsCar_accelerate_spec [OF l1] GasSportsCar_accelerate_spec [OF l2]
      GasSportsCar_brake_def)

lemma GasSportsCar_run_same:
  assumes "GasSportsCar.speed g1 = GasSportsCar.speed g2"
    and "GasSportsCar.work g1 = GasSportsCar.work g2"
    and "length (GasSportsCar.calculations g1) = VECTOR_SIZE"
    and "length (GasSportsCar.calculations g2) = VECTOR_SIZE"
  shows "\<exists>g1' g2'. GasSportsCar_run M cs g1 = Inr g1' \<and> GasSportsCar_run M cs g2 = Inr g2'
     \<and> GasSportsCar.work g1' = GasSportsCar.work g2'"
  using assms
proof (induction cs arbitrary: g1 g2)
  case Nil
  then show ?case by simp
next
  case (Cons c cs)
  from GasSportsCar_call_same [OF Cons.prems, of M c]
  obtain g1' g2' where "GasSportsCar_call M c g1 = Inr g1'"
    and "GasSportsCar_call M c g2 = Inr g2'"
    and "GasSportsCar.speed g1' = GasSportsCar.speed g2'"
    and "GasSportsCar.work g1' = GasSportsCar.work g2'"
    and "length (GasSportsCar.calculations g1') = VECTOR_SIZE"
    and "length (GasSportsCar.calculations g2') = VECTOR_SIZE" by blast
  with Cons.IH [of g1' g2'] show ?case by simp
qed

text \<open>
  Claim C5. \<open>n\<close> calls \<^verbatim>\<open>accelerate(s)\<close> on two \<open>ElectricSportsCar\<close>s (or two
  \<open>GasSportsCar\<close>s) that start with the same \<open>speed\<close> and the same \<open>work\<close>, and with
  buffers of the constructor's length, all return normally and end with the same
  \<^verbatim>\<open>getWork()\<close>: the result is a function of \<open>speed\<close>, \<open>work\<close>, \<open>s\<close> and \<open>n\<close> alone,
  whatever the scratch buffer, the brand and the model hold. Two runs from identical
  initial states are the special case.
\<close>

theorem repeated_accelerate_deterministic:
  "(ElectricSportsCar.speed e1 = ElectricSportsCar.speed e2
      \<and> ElectricSportsCar.work e1 = ElectricSportsCar.work e2
      \<and> length (ElectricSportsCar.calculations e1) = VECTOR_SIZE
      \<and> length (ElectricSportsCar.calculations e2) = VECTOR_SIZE \<longrightarrow>
    (\<exists>e1' e2'. ElectricSportsCar_run M (replicate n (Accelerate s)) e1 = Inr e1'
       \<and> ElectricSportsCar_run M (replicate n (Accelerate s)) e2 = Inr e2'
       \<and> ElectricSportsCar_getWork e1' = ElectricSportsCar_getWork e2'))
   \<and> (GasSportsCar.speed g1 = GasSportsCar.speed g2
      \<and> GasSportsCar.work g1 = GasSportsCar.work g2
      \<and> length (GasSportsCar.calculations g1) = VECTOR_SIZE
      \<and> length (GasSportsCar.calculations g2) = VECTOR_SIZE \<longrightarrow>
    (\<exists>g1' g2'. GasSportsCar_run M (replicate n (Accelerate s)) g1 = Inr g1'
       \<and> GasSportsCar_run M (replicate n (Accelerate s)) g2 = Inr g2'
       \<and> GasSportsCar_getWork g1' = GasSportsCar_getWork g2'))"
  using ElectricSportsCar_run_same [of e1 e2 M "replicate n (Accelerate s)"]
    GasSportsCar_run_same [of g1 g2 M "replicate n (Accelerate s)"]
  by (simp add: ElectricSportsCar_getWork_def GasSportsCar_getWork_def)


theorem repeated_accelerate_deterministic_witness:
  "ElectricSportsCar.speed (ElectricSportsCar_new real_cmath ''Tesla'' ''Model S'') =
     ElectricSportsCar.speed ((ElectricSportsCar_new real_cmath ''Tesla'' ''Model S'')
        \<lparr>ElectricSportsCar.calculations := replicate VECTOR_SIZE 1\<rparr>)
   \<and> ElectricSportsCar.work (ElectricSportsCar_new real_cmath ''Tesla'' ''Model S'') =
     ElectricSportsCar.work ((ElectricSportsCar_new real_cmath ''Tesla'' ''Model S'')
        \<lparr>ElectricSportsCar.calculations := replicate VECTOR_SIZE 1\<rparr>)
   \<and> length (ElectricSportsCar.calculations (ElectricSportsCar_new real_cmath ''Tesla'' ''Model S''))
       = VECTOR_SIZE
   \<and> length (ElectricSportsCar.calculations ((ElectricSportsCar_new real_cmath ''Tesla'' ''Model S'')
        \<lparr>ElectricSportsCar.calculations := replicate VECTOR_SIZE 1\<rparr>)) = VECTOR_SIZE
   \<and> (\<exists>e1' e2'.
        ElectricSportsCar_run real_cmath (replicate 3 (Accelerate 50))
          (ElectricSportsCar_new real_cmath ''Tesla'' ''Model S'') = Inr e1'
      \<and> ElectricSportsCar_run real_cmath (replicate 3 (Accelerate 50))
          ((ElectricSportsCar_new real_cmath ''Tesla'' ''Model S'')
             \<lparr>ElectricSportsCar.calculations := replicate VECTOR_SIZE 1\<rparr>) = Inr e2'
      \<and> ElectricSportsCar_getWork e1' = ElectricSportsCar_getWork e2')
   \<and> (\<exists>g1' g2'.
        GasSportsCar_run real_cmath (replicate 3 (Accelerate 50))
          (GasSportsCar_new real_cmath ''Porsche'' ''911'') = Inr g1'
      \<and> GasSportsCar_run real_cmath (replicate 3 (Accelerate 50))
          ((GasSportsCar_new real_cmath ''Porsche'' ''911'')
             \<lparr>GasSportsCar.calculations := replicate VECTOR_SIZE 1\<rparr>) = Inr g2'
      \<and> GasSportsCar_getWork g1' = GasSportsCar_getWork g2')"
  using repeated_accelerate_deterministic
    [of "ElectricSportsCar_new real_cmath ''Tesla'' ''Model S''"
      "(ElectricSportsCar_new real_cmath ''Tesla'' ''Model S'')
         \<lparr>ElectricSportsCar.calculations := replicate VECTOR_SIZE 1\<rparr>"
      real_cmath 3 50
      "GasSportsCar_new real_cmath ''Porsche'' ''911''"
      "(GasSportsCar_new real_cmath ''Porsche'' ''911'')
         \<lparr>GasSportsCar.calculations := replicate VECTOR_SIZE 1\<rparr>"]
  by (simp add: ElectricSportsCar_new_def GasSportsCar_new_def)

section \<open>The benchmark loops\<close>

lemma on_success_simps:
  "on_success f (Inr s) = f s" "on_success f (Inl e) = Inl e"
  by (simp_all add: on_success_def)

lemma on_success_Inl: "(on_success f ^^ k) (Inl e) = Inl e"
  by (induction k) (simp_all add: on_success_simps)

lemma BM_ConceptBased_inner_unroll:
  "i \<le> INNER_LOOP_COUNT \<Longrightarrow>
   BM_ConceptBased_inner M i st =
     (on_success (BM_ConceptBased_body M) ^^ (INNER_LOOP_COUNT - i)) (Inr st)"
proof (induction "INNER_LOOP_COUNT - i" arbitrary: i st)
  case 0
  then show ?case by (simp add: BM_ConceptBased_inner.simps)
next
  case (Suc k)
  then have lt: "i < INNER_LOOP_COUNT" and k: "k = INNER_LOOP_COUNT - Suc i"
    and n: "INNER_LOOP_COUNT - i = Suc k" by simp_all
  have "(on_success (BM_ConceptBased_body M) ^^ Suc k) (Inr st) =
      (on_success (BM_ConceptBased_body M) ^^ k) (BM_ConceptBased_body M st)"
    by (simp only: funpow_Suc_right o_apply on_success_simps)
  also have "\<dots> = BM_ConceptBased_inner M i st"
  proof (cases "BM_ConceptBased_body M st")
    case (Inl e)
    with lt show ?thesis
      by (subst BM_ConceptBased_inner.simps) (simp add: on_success_Inl)
  next
    case (Inr st')
    with lt k Suc.hyps(1) [OF k, of st'] show ?thesis
      by (subst BM_ConceptBased_inner.simps) simp
  qed
  finally show ?case by (simp only: n)
qed

lemma BM_Polymorphic_inner_unroll:
  "i \<le> INNER_LOOP_COUNT \<Longrightarrow>
   BM_Polymorphic_inner M i st =
     (on_success (BM_Polymorphic_body M) ^^ (INNER_LOOP_COUNT - i)) (Inr st)"
proof (induction "INNER_LOOP_COUNT - i" arbitrary: i st)
  case 0
  then show ?case by (simp add: BM_Polymorphic_inner.simps)
next
  case (Suc k)
  then have lt: "i < INNER_LOOP_COUNT" and k: "k = INNER_LOOP_COUNT - Suc i"
    and n: "INNER_LOOP_COUNT - i = Suc k" by simp_all
  have "(on_success (BM_Polymorphic_body M) ^^ Suc k) (Inr st) =
      (on_success (BM_Polymorphic_body M) ^^ k) (BM_Polymorphic_body M st)"
    by (simp only: funpow_Suc_right o_apply on_success_simps)
  also have "\<dots> = BM_Polymorphic_inner M i st"
  proof (cases "BM_Polymorphic_body M st")
    case (Inl e)
    with lt show ?thesis
      by (subst BM_Polymorphic_inner.simps) (simp add: on_success_Inl)
  next
    case (Inr st')
    with lt k Suc.hyps(1) [OF k, of st'] show ?thesis
      by (subst BM_Polymorphic_inner.simps) simp
  qed
  finally show ?case by (simp only: n)
qed

lemma BM_ConceptBased_body_calls:
  "BM_ConceptBased_body M st =
     (case ElectricSportsCar_accelerate M (lit M 50) (tesla st) of
        Inl x \<Rightarrow> Inl x
      | Inr e \<Rightarrow>
          (case GasSportsCar_accelerate M (lit M 50) (porsche st) of
             Inl x \<Rightarrow> Inl x
           | Inr g \<Rightarrow>
               Inr \<lparr>tesla = ElectricSportsCar_brake M e, porsche = GasSportsCar_brake M g,
                    total_work = total_work st + ElectricSportsCar_getWork e
                      + GasSportsCar_getWork g\<rparr>))"
  by (simp add: BM_ConceptBased_body_def ConceptBased_vehicles_def ACCELERATION_VALUE_def
      Let_def split: sum.splits)

lemma BM_Polymorphic_body_calls:
  "BM_Polymorphic_body M st =
     (case PolyVehicle_accelerate M (lit M 50) (poly_tesla st) of
        Inl x \<Rightarrow> Inl x
      | Inr e \<Rightarrow>
          (case PolyVehicle_accelerate M (lit M 50) (poly_porsche st) of
             Inl x \<Rightarrow> Inl x
           | Inr g \<Rightarrow>
               Inr \<lparr>poly_tesla = brake M e, poly_porsche = brake M g,
                    poly_total_work = poly_total_work st + PolyVehicle_getWork e
                      + PolyVehicle_getWork g\<rparr>))"
  by (simp add: BM_Polymorphic_body_def ACCELERATION_VALUE_def Let_def split: sum.splits)

lemma main_registrations_settings:
  "map (\<lambda>b. (bm_name b, bm_function b, time_unit b, use_real_time b, min_time b, iterations b))
       (main_registrations M b0) =
     [(''ConceptBased'', BM_ConceptBased, kMillisecond, True, lit M (1 / 10), 10000),
      (''Polymorphic'', BM_Polymorphic, kMillisecond, True, lit M (1 / 10), 10000)]"
  by (simp add: main_registrations_def RegisterBenchmark_def Unit_def UseRealTime_def
      MinTime_def Iterations_def MIN_TIME_def BENCHMARK_ITERATIONS_def)

lemma on_success_funpow_invariant:
  assumes step: "\<And>s. P s \<Longrightarrow> \<exists>s'. f s = Inr s' \<and> P s'"
    and "P s"
  shows "\<exists>s'. (on_success f ^^ k) (Inr s) = Inr s' \<and> P s'"
proof (induction k)
  case 0
  from \<open>P s\<close> show ?case by simp
next
  case (Suc k)
  then obtain s' where "(on_success f ^^ k) (Inr s) = Inr s'" and "P s'" by blast
  with step [of s'] show ?case by (simp add: on_success_simps)
qed

lemma BM_ConceptBased_body_ok:
  assumes "length (ElectricSportsCar.calculations (tesla st)) = VECTOR_SIZE
      \<and> length (GasSportsCar.calculations (porsche st)) = VECTOR_SIZE"
  shows "\<exists>st'. BM_ConceptBased_body M st = Inr st'
     \<and> (length (ElectricSportsCar.calculations (tesla st')) = VECTOR_SIZE
        \<and> length (GasSportsCar.calculations (porsche st')) = VECTOR_SIZE)"
  using assms
  by (simp add: BM_ConceptBased_body_calls ElectricSportsCar_accelerate_spec
      GasSportsCar_accelerate_spec ElectricSportsCar_brake_def GasSportsCar_brake_def)

lemma BM_Polymorphic_body_ok:
  assumes "length (PolyVehicle.calculations (base_of (poly_tesla st))) = VECTOR_SIZE
      \<and> length (PolyVehicle.calculations (base_of (poly_porsche st))) = VECTOR_SIZE"
  shows "\<exists>st'. BM_Polymorphic_body M st = Inr st'
     \<and> (length (PolyVehicle.calculations (base_of (poly_tesla st'))) = VECTOR_SIZE
        \<and> length (PolyVehicle.calculations (base_of (poly_porsche st'))) = VECTOR_SIZE)"
  using assms
  by (simp add: BM_Polymorphic_body_calls PolyVehicle_accelerate_spec brake_calculations
      base_of_with_base)

lemma BM_ConceptBased_iterations_complete:
  "\<exists>st'. (on_success (BM_ConceptBased_iteration M) ^^ n) (Inr (BM_ConceptBased_init M)) = Inr st'"
proof -
  let ?P = "\<lambda>st. length (ElectricSportsCar.calculations (tesla st)) = VECTOR_SIZE
      \<and> length (GasSportsCar.calculations (porsche st)) = VECTOR_SIZE"
  have it: "\<exists>st'. BM_ConceptBased_iteration M st = Inr st' \<and> ?P st'" if "?P st" for st
    using on_success_funpow_invariant
      [of ?P "BM_ConceptBased_body M" st INNER_LOOP_COUNT, OF BM_ConceptBased_body_ok that]
      BM_ConceptBased_inner_unroll [of 0 M st]
    by (simp add: BM_ConceptBased_iteration_def)
  have "?P (BM_ConceptBased_init M)"
    by (simp add: BM_ConceptBased_init_def ElectricSportsCar_new_def GasSportsCar_new_def)
  from on_success_funpow_invariant [of ?P "BM_ConceptBased_iteration M", OF it this, of n]
  show ?thesis by blast
qed

lemma BM_Polymorphic_iterations_complete:
  "\<exists>st'. (on_success (BM_Polymorphic_iteration M) ^^ n) (Inr (BM_Polymorphic_init M)) = Inr st'"
proof -
  let ?P = "\<lambda>st. length (PolyVehicle.calculations (base_of (poly_tesla st))) = VECTOR_SIZE
      \<and> length (PolyVehicle.calculations (base_of (poly_porsche st))) = VECTOR_SIZE"
  have it: "\<exists>st'. BM_Polymorphic_iteration M st = Inr st' \<and> ?P st'" if "?P st" for st
    using on_success_funpow_invariant
      [of ?P "BM_Polymorphic_body M" st INNER_LOOP_COUNT, OF BM_Polymorphic_body_ok that]
      BM_Polymorphic_inner_unroll [of 0 M st]
    by (simp add: BM_Polymorphic_iteration_def)
  have "?P (BM_Polymorphic_init M)"
    by (simp add: BM_Polymorphic_init_def PolyElectricCar_new_def PolyGasCar_new_def
        PolyVehicle_new_def)
  from on_success_funpow_invariant [of ?P "BM_Polymorphic_iteration M", OF it this, of n]
  show ?thesis by blast
qed

text \<open>
  Claim C6. \<open>INNER_LOOP_COUNT\<close> is 10, and one measured iteration of either benchmark
  is the inner loop's body ten times in a row. One pass of the body is
  \<^verbatim>\<open>accelerate(50.0)\<close>, total plus \<^verbatim>\<open>getWork()\<close>, \<^verbatim>\<open>brake()\<close> on the electric car
  and then the same on the gas car. From the locals as the benchmark function
  constructs them, any number of measured iterations completes without a failure.
  \<^verbatim>\<open>main\<close> registers the two benchmarks, each with the millisecond unit, real time,
  minimum time 0.1 and 10000 iterations.
\<close>

theorem benchmark_iteration_and_registration:
  "INNER_LOOP_COUNT = 10
   \<and> BM_ConceptBased_iteration M st =
       (on_success (BM_ConceptBased_body M) ^^ 10) (Inr st)
   \<and> BM_ConceptBased_body M st =
       (case ElectricSportsCar_accelerate M (lit M 50) (tesla st) of
          Inl x \<Rightarrow> Inl x
        | Inr e \<Rightarrow>
            (case GasSportsCar_accelerate M (lit M 50) (porsche st) of
               Inl x \<Rightarrow> Inl x
             | Inr g \<Rightarrow>
                 Inr \<lparr>tesla = ElectricSportsCar_brake M e, porsche = GasSportsCar_brake M g,
                      total_work = total_work st + ElectricSportsCar_getWork e
                        + GasSportsCar_getWork g\<rparr>))
   \<and> BM_Polymorphic_iteration M pst =
       (on_success (BM_Polymorphic_body M) ^^ 10) (Inr pst)
   \<and> BM_Polymorphic_body M pst =
       (case PolyVehicle_accelerate M (lit M 50) (poly_tesla pst) of
          Inl x \<Rightarrow> Inl x
        | Inr e \<Rightarrow>
            (case PolyVehicle_accelerate M (lit M 50) (poly_porsche pst) of
               Inl x \<Rightarrow> Inl x
             | Inr g \<Rightarrow>
                 Inr \<lparr>poly_tesla = brake M e, poly_porsche = brake M g,
                      poly_total_work = poly_total_work pst + PolyVehicle_getWork e
                        + PolyVehicle_getWork g\<rparr>))
   \<and> map (\<lambda>b. (bm_name b, bm_function b, time_unit b, use_real_time b, min_time b, iterations b))
         (main_registrations M b0) =
       [(''ConceptBased'', BM_ConceptBased, kMillisecond, True, lit M (1 / 10), 10000),
        (''Polymorphic'', BM_Polymorphic, kMillisecond, True, lit M (1 / 10), 10000)]
   \<and> (\<exists>st'. (on_success (BM_ConceptBased_iteration M) ^^ n) (Inr (BM_ConceptBased_init M))
          = Inr st')
   \<and> (\<exists>st'. (on_success (BM_Polymorphic_iteration M) ^^ n) (Inr (BM_Polymorphic_init M))
          = Inr st')"
proof (intro conjI)
  show c: "INNER_LOOP_COUNT = 10" by (simp add: INNER_LOOP_COUNT_def)
  show "BM_ConceptBased_iteration M st = (on_success (BM_ConceptBased_body M) ^^ 10) (Inr st)"
    using BM_ConceptBased_inner_unroll [of 0 M st]
    by (simp add: BM_ConceptBased_iteration_def c)
  show "BM_Polymorphic_iteration M pst = (on_success (BM_Polymorphic_body M) ^^ 10) (Inr pst)"
    using BM_Polymorphic_inner_unroll [of 0 M pst]
    by (simp add: BM_Polymorphic_iteration_def c)
qed (rule BM_ConceptBased_body_calls BM_Polymorphic_body_calls main_registrations_settings
      BM_ConceptBased_iterations_complete BM_Polymorphic_iterations_complete)+

section \<open>The kernel's sum can be negative\<close>














end
